theory Spec2Isabelle
  imports Complex_Main
begin

section \<open>Credential pool (the key rotation module)\<close>

text \<open>
  The module keeps one configuration object per logical model in the private table
  \<open>API_KEY_CONFIG\<close>: the upstream model id, the list of configured keys, the current
  index and the failure count. The table is not exported; the module's interface is the
  six exported functions modelled below. JavaScript mutates the objects in place; here
  every function that assigns a field takes the table and returns the new one. Logger
  calls have no effect on the table and are left out. A table is a map from the names
  of its own properties to their entries; names that resolve through the prototype
  chain are treated after the six functions.
\<close>

record key_config =
  modelId :: string
  keys :: "string list"
  currentIndex :: nat
  failureCount :: nat

type_synonym pool = "string \<rightharpoonup> key_config"

text \<open>
  The key lists are read from the process environment once, at module load:
  \<open>[env.K1, env.K2, env.K3].filter(key => key)\<close> keeps the variables that are set to a
  non-empty string.
\<close>

type_synonym environment = "string \<Rightarrow> string option"

definition truthy_key :: "string option \<Rightarrow> string option" where
  "truthy_key v = (case v of None \<Rightarrow> None | Some s \<Rightarrow> if s = [] then None else Some s)"

definition configured_keys :: "environment \<Rightarrow> string list \<Rightarrow> string list" where
  "configured_keys env names = List.map_filter (\<lambda>n. truthy_key (env n)) names"

definition API_KEY_CONFIG :: "environment \<Rightarrow> pool" where
  "API_KEY_CONFIG env =
     [''orzion-pro'' \<mapsto>
        \<lparr>modelId = ''qwen/qwen-2.5-72b-instruct:free'',
         keys = configured_keys env
           [''ORZION_PRO_API_KEY_1'', ''ORZION_PRO_API_KEY_2'', ''ORZION_PRO_API_KEY_3''],
         currentIndex = 0, failureCount = 0\<rparr>,
      ''orzion-turbo'' \<mapsto>
        \<lparr>modelId = ''meta-llama/llama-3.2-3b-instruct:free'',
         keys = configured_keys env
           [''ORZION_TURBO_API_KEY_1'', ''ORZION_TURBO_API_KEY_2'', ''ORZION_TURBO_API_KEY_3''],
         currentIndex = 0, failureCount = 0\<rparr>,
      ''orzion-mini'' \<mapsto>
        \<lparr>modelId = ''meta-llama/llama-3.2-3b-instruct:free'',
         keys = configured_keys env
           [''ORZION_MINI_API_KEY_1'', ''ORZION_MINI_API_KEY_2'', ''ORZION_MINI_API_KEY_3''],
         currentIndex = 0, failureCount = 0\<rparr>]"

text \<open>
  A JavaScript exception is a value: its message, its \<open>code\<close> property (set by the
  HTTP client on connection errors) and, when the upstream answered, the response with
  its status and the message of its error body (\<open>response.data.error.message\<close>).
\<close>

record http_response =
  status :: nat
  data_error_message :: "string option"

record js_error =
  message :: string
  code :: "string option"
  response :: "http_response option"

definition Error :: "string \<Rightarrow> js_error" where
  "Error msg = \<lparr>message = msg, code = None, response = None\<rparr>"

record key_info =
  key :: "string option"
  keyIndex :: nat
  totalKeys :: nat
  info_modelId :: string

text \<open>
  \<open>config.keys[config.currentIndex]\<close> is \<open>undefined\<close> out of range; the field \<open>key\<close> is
  \<open>None\<close> there.
\<close>

definition getCurrentApiKey :: "string \<Rightarrow> pool \<Rightarrow> js_error + key_info" where
  "getCurrentApiKey model p =
     (case p model of
        None \<Rightarrow> Inl (Error (''No hay claves API configuradas para el modelo: '' @ model))
      | Some config \<Rightarrow>
          if keys config = []
          then Inl (Error (''No hay claves API configuradas para el modelo: '' @ model))
          else Inr \<lparr>key = (if currentIndex config < length (keys config)
                             then Some (keys config ! currentIndex config) else None),
                    keyIndex = currentIndex config,
                    totalKeys = length (keys config),
                    info_modelId = modelId config\<rparr>)"

definition rotateApiKey :: "string \<Rightarrow> string \<Rightarrow> pool \<Rightarrow> pool" where
  "rotateApiKey model reason p =
     (case p model of
        None \<Rightarrow> p
      | Some config \<Rightarrow>
          if keys config = [] then p
          else p(model \<mapsto>
                 config\<lparr>currentIndex := (currentIndex config + 1) mod length (keys config),
                        failureCount := failureCount config + 1\<rparr>))"

definition resetFailureCount :: "string \<Rightarrow> pool \<Rightarrow> pool" where
  "resetFailureCount model p =
     (case p model of
        None \<Rightarrow> p
      | Some config \<Rightarrow> p(model \<mapsto> config\<lparr>failureCount := 0\<rparr>))"

definition allKeysFailed :: "string \<Rightarrow> pool \<Rightarrow> bool" where
  "allKeysFailed model p =
     (case p model of
        None \<Rightarrow> True
      | Some config \<Rightarrow>
          if keys config = [] then True
          else length (keys config) \<le> failureCount config)"

record rotation_stats =
  stats_model :: string
  stats_totalKeys :: nat
  currentKeyIndex :: nat
  stats_failureCount :: nat
  stats_allKeysFailed :: bool

definition getRotationStats :: "string \<Rightarrow> pool \<Rightarrow> rotation_stats option" where
  "getRotationStats model p =
     (case p model of
        None \<Rightarrow> None
      | Some config \<Rightarrow>
          Some \<lparr>stats_model = model,
                stats_totalKeys = length (keys config),
                currentKeyIndex = currentIndex config,
                stats_failureCount = failureCount config,
                stats_allKeysFailed = allKeysFailed model p\<rparr>)"

definition getAllRotationStats :: "pool \<Rightarrow> (string \<times> rotation_stats option) list" where
  "getAllRotationStats p =
     map (\<lambda>model. (model, getRotationStats model p))
       [''orzion-pro'', ''orzion-turbo'', ''orzion-mini'']"

text \<open>
  The exported interface as a datatype of calls, and the effect of one call on the table
  together with what the call returns. A sequence of calls is run from left to right.
\<close>

datatype pool_call =
    GetCurrentApiKey string
  | RotateApiKey string string
  | ResetFailureCount string
  | AllKeysFailed string
  | GetRotationStats string
  | GetAllRotationStats

datatype pool_reply =
    KeyReply "js_error + key_info"
  | Done
  | BoolReply bool
  | StatsReply "rotation_stats option"
  | AllStatsReply "(string \<times> rotation_stats option) list"

fun pool_exec :: "pool_call \<Rightarrow> pool \<Rightarrow> pool_reply \<times> pool" where
  "pool_exec (GetCurrentApiKey m) p = (KeyReply (getCurrentApiKey m p), p)"
| "pool_exec (RotateApiKey m reason) p = (Done, rotateApiKey m reason p)"
| "pool_exec (ResetFailureCount m) p = (Done, resetFailureCount m p)"
| "pool_exec (AllKeysFailed m) p = (BoolReply (allKeysFailed m p), p)"
| "pool_exec (GetRotationStats m) p = (StatsReply (getRotationStats m p), p)"
| "pool_exec GetAllRotationStats p = (AllStatsReply (getAllRotationStats p), p)"

fun pool_run :: "pool_call list \<Rightarrow> pool \<Rightarrow> pool" where
  "pool_run [] p = p"
| "pool_run (c # cs) p = pool_run cs (snd (pool_exec c p))"

fun is_mutator :: "pool_call \<Rightarrow> bool" where
  "is_mutator (RotateApiKey m reason) = True"
| "is_mutator (ResetFailureCount m) = True"
| "is_mutator c = False"

text \<open>
  The functions above give the effect of a call whose lookup finds an own entry of the
  table or nothing, and they are used for such names. The source reads the entry as \<open>API_KEY_CONFIG[model]\<close>, and the table is an object literal: for a
  name that is not one of its own properties the lookup goes on to \<open>Object.prototype\<close>.
  The inherited \<open>constructor\<close> is the global function \<open>Object\<close>, which is truthy and has a
  property \<open>keys\<close> (the function \<open>Object.keys\<close>, whose \<open>length\<close> is 1); every other
  inherited member is a function or object without a property \<open>keys\<close>. The guard
  \<open>!config || !config.keys || config.keys.length === 0\<close> therefore does not fire for
  \<open>constructor\<close>, and the functions go on to read and assign \<open>currentIndex\<close> and
  \<open>failureCount\<close> on \<open>Object\<close> itself.

  The state of the module is then the table together with what \<open>Object.currentIndex\<close>
  and \<open>Object.failureCount\<close> evaluate to (\<open>undefined\<close> at module load). The calls of
  \<open>rotateApiKey\<close> and \<open>allKeysFailed\<close> are modelled for every string as the model name.
\<close>

datatype js_number = Undefined | NaN | Number nat

datatype property_value =
    Config key_config
  | Object_function
  | Other_inherited
  | No_property

definition OBJECT_PROTOTYPE_NAMES :: "string list" where
  "OBJECT_PROTOTYPE_NAMES =
     [''__defineGetter__'', ''__defineSetter__'', ''hasOwnProperty'', ''__lookupGetter__'',
      ''__lookupSetter__'', ''isPrototypeOf'', ''propertyIsEnumerable'', ''toString'',
      ''valueOf'', ''__proto__'', ''toLocaleString'']"

definition property_lookup :: "pool \<Rightarrow> string \<Rightarrow> property_value" where
  "property_lookup p model =
     (case p model of
        Some config \<Rightarrow> Config config
      | None \<Rightarrow>
          if model = ''constructor'' then Object_function
          else if model \<in> set OBJECT_PROTOTYPE_NAMES then Other_inherited
          else No_property)"

record pool_state =
  table :: pool
  Object_currentIndex :: js_number
  Object_failureCount :: js_number

definition module_load :: "environment \<Rightarrow> pool_state" where
  "module_load env =
     \<lparr>table = API_KEY_CONFIG env, Object_currentIndex = Undefined,
      Object_failureCount = Undefined\<rparr>"

text \<open>
  On \<open>Object\<close>: \<open>(config.currentIndex + 1) % config.keys.length\<close> is \<open>NaN\<close> for
  \<open>undefined\<close> and \<open>NaN\<close>, and the remainder modulo 1 for a number;
  \<open>config.failureCount++\<close> turns \<open>undefined\<close> into \<open>NaN\<close>; a comparison with
  \<open>undefined\<close> or \<open>NaN\<close> is false.
\<close>

definition call_rotateApiKey :: "string \<Rightarrow> string \<Rightarrow> pool_state \<Rightarrow> pool_state" where
  "call_rotateApiKey model reason s =
     (case property_lookup (table s) model of
        Config config \<Rightarrow> s\<lparr>table := rotateApiKey model reason (table s)\<rparr>
      | Object_function \<Rightarrow>
          s\<lparr>Object_currentIndex :=
               (case Object_currentIndex s of Number n \<Rightarrow> Number ((n + 1) mod 1) | _ \<Rightarrow> NaN),
            Object_failureCount :=
               (case Object_failureCount s of Number n \<Rightarrow> Number (n + 1) | _ \<Rightarrow> NaN)\<rparr>
      | Other_inherited \<Rightarrow> s
      | No_property \<Rightarrow> s)"

definition call_allKeysFailed :: "string \<Rightarrow> pool_state \<Rightarrow> bool" where
  "call_allKeysFailed model s =
     (case property_lookup (table s) model of
        Config config \<Rightarrow> allKeysFailed model (table s)
      | Object_function \<Rightarrow>
          (case Object_failureCount s of Number n \<Rightarrow> 1 \<le> n | _ \<Rightarrow> False)
      | Other_inherited \<Rightarrow> True
      | No_property \<Rightarrow> True)"

section \<open>Rate limiter over the counter store\<close>

text \<open>
  The counter store is the table \<open>rate_limits\<close> behind one shared client, created at
  module load as
  \<open>key VARCHAR(255) PRIMARY KEY, count INTEGER DEFAULT 0, reset_time BIGINT\<close>.
  The client's state is the committed table, the working copy of the transaction that
  is open (if any), and the list of the statements issued so far.

  A statement is rejected by the store when a value does not fit its column: a key of
  more than 255 characters, a count outside the 32-bit range of \<open>INTEGER\<close>, a reset time
  outside the 64-bit range of \<open>BIGINT\<close>. Any other error (a lost connection, a missing
  table) is decided by the environment: the fault oracle gives, for the position of a
  statement in the sequence of all statements issued on the client, the message of the
  error raised there, if any.

  A rejected statement changes no row. \<open>COMMIT\<close> makes the working copy the committed
  table; \<open>ROLLBACK\<close> discards it, also when the \<open>ROLLBACK\<close> itself is rejected (the
  server aborts the transaction of a lost connection). \<open>INSERT\<close> is issued only for a
  key that the \<open>SELECT\<close> before it, in the same transaction, did not find.

  \<open>pg_query\<close> is a statement on a client that answers. A client whose connection was
  never established answers no statement at all; that case is part of
  \<open>checkRateLimit_call\<close> at the end of this section.
\<close>

record rate_row =
  count :: int
  reset_time :: int

type_synonym rate_table = "string \<rightharpoonup> rate_row"

datatype statement =
    Q_CREATE_TABLE
  | Q_CREATE_INDEX
  | Q_BEGIN
  | Q_DELETE_EXPIRED int
  | Q_SELECT_COUNT string
  | Q_INSERT string int int
  | Q_UPDATE_COUNT int string
  | Q_COMMIT
  | Q_ROLLBACK

record pg_client =
  committed :: rate_table
  pending :: "rate_table option"
  issued :: "statement list"

type_synonym faults = "nat \<Rightarrow> string option"

definition fits_INTEGER :: "int \<Rightarrow> bool" where
  "fits_INTEGER c = (- 2147483648 \<le> c \<and> c \<le> 2147483647)"

definition fits_BIGINT :: "int \<Rightarrow> bool" where
  "fits_BIGINT t = (- 9223372036854775808 \<le> t \<and> t \<le> 9223372036854775807)"

fun column_error :: "statement \<Rightarrow> string option" where
  "column_error (Q_INSERT k c rt) =
     (if 255 < length k then Some ''value too long for type character varying(255)''
      else if \<not> fits_INTEGER c then Some ''integer out of range''
      else if \<not> fits_BIGINT rt then Some ''bigint out of range''
      else None)"
| "column_error (Q_UPDATE_COUNT c k) =
     (if \<not> fits_INTEGER c then Some ''integer out of range'' else None)"
| "column_error st = None"

definition visible :: "pg_client \<Rightarrow> rate_table" where
  "visible db = (case pending db of None \<Rightarrow> committed db | Some t \<Rightarrow> t)"

definition write_table :: "rate_table \<Rightarrow> pg_client \<Rightarrow> pg_client" where
  "write_table t db =
     (case pending db of
        None \<Rightarrow> db\<lparr>committed := t\<rparr>
      | Some w \<Rightarrow> db\<lparr>pending := Some t\<rparr>)"

fun effect :: "statement \<Rightarrow> pg_client \<Rightarrow> pg_client" where
  "effect Q_CREATE_TABLE db = db"
| "effect Q_CREATE_INDEX db = db"
| "effect Q_BEGIN db = db\<lparr>pending := Some (visible db)\<rparr>"
| "effect (Q_DELETE_EXPIRED t) db =
     write_table
       (\<lambda>k. case visible db k of
               None \<Rightarrow> None
             | Some r \<Rightarrow> if reset_time r < t then None else Some r) db"
| "effect (Q_SELECT_COUNT k) db = db"
| "effect (Q_INSERT k c rt) db =
     write_table ((visible db)(k \<mapsto> \<lparr>count = c, reset_time = rt\<rparr>)) db"
| "effect (Q_UPDATE_COUNT c k) db =
     (case visible db k of
        None \<Rightarrow> db
      | Some r \<Rightarrow> write_table ((visible db)(k \<mapsto> r\<lparr>count := c\<rparr>)) db)"
| "effect Q_COMMIT db = db\<lparr>committed := visible db, pending := None\<rparr>"
| "effect Q_ROLLBACK db = db\<lparr>pending := None\<rparr>"

definition pg_query :: "faults \<Rightarrow> statement \<Rightarrow> pg_client \<Rightarrow> string option \<times> pg_client" where
  "pg_query fl st db =
     (let logged = db\<lparr>issued := issued db @ [st]\<rparr>
      in case fl (length (issued db)) of
           Some msg \<Rightarrow> (Some msg, if st = Q_ROLLBACK then effect Q_ROLLBACK logged else logged)
         | None \<Rightarrow>
             (case column_error st of
                Some msg \<Rightarrow> (Some msg, logged)
              | None \<Rightarrow> (None, effect st logged)))"

text \<open>The rows a \<open>SELECT count ... WHERE key = $1\<close> returns: none, or the one count.\<close>

definition select_count :: "pg_client \<Rightarrow> string \<Rightarrow> int option" where
  "select_count db k = map_option count (visible db k)"

text \<open>Decimal text of a number, as a template literal prints an integer.\<close>

fun digits :: "nat \<Rightarrow> string" where
  "digits n =
     (if n < 10 then [''0123456789'' ! n]
      else digits (n div 10) @ [''0123456789'' ! (n mod 10)])"

definition show_int :: "int \<Rightarrow> string" where
  "show_int i = (if i < 0 then ''-'' @ digits (nat (- i)) else digits (nat i))"

record rl_result =
  allowed :: bool
  rl_count :: int
  remaining :: int
  resetTime :: "int option"
  limit :: "int option"
  error :: "string option"

text \<open>
  The inner \<open>try\<close> of \<open>checkRateLimit\<close>: the statements between \<open>BEGIN\<close> and \<open>COMMIT\<close>.
  The first rejected statement raises; \<open>Inl\<close> carries its message.
\<close>

definition counter_update ::
  "faults \<Rightarrow> int \<Rightarrow> string \<Rightarrow> int \<Rightarrow> int \<Rightarrow> pg_client \<Rightarrow> (string + int) \<times> pg_client" where
  "counter_update fl now dbKey increment rt db1 =
     (case pg_query fl (Q_DELETE_EXPIRED now) db1 of
        (Some e, db2) \<Rightarrow> (Inl e, db2)
      | (None, db2) \<Rightarrow>
     (case pg_query fl (Q_SELECT_COUNT dbKey) db2 of
        (Some e, db3) \<Rightarrow> (Inl e, db3)
      | (None, db3) \<Rightarrow>
     (case select_count db3 dbKey of
        None \<Rightarrow>
          (case pg_query fl (Q_INSERT dbKey increment rt) db3 of
             (Some e, db4) \<Rightarrow> (Inl e, db4)
           | (None, db4) \<Rightarrow>
          (case pg_query fl Q_COMMIT db4 of
             (Some e, db5) \<Rightarrow> (Inl e, db5)
           | (None, db5) \<Rightarrow> (Inr increment, db5)))
      | Some c \<Rightarrow>
          (let currentCount = c + increment in
           case pg_query fl (Q_UPDATE_COUNT currentCount dbKey) db3 of
             (Some e, db4) \<Rightarrow> (Inl e, db4)
           | (None, db4) \<Rightarrow>
          (case pg_query fl Q_COMMIT db4 of
             (Some e, db5) \<Rightarrow> (Inl e, db5)
           | (None, db5) \<Rightarrow> (Inr currentCount, db5))))))"

text \<open>
  The outer \<open>try\<close>: a rejected \<open>BEGIN\<close> raises straight to the outer handler; an error of
  the inner block is answered by \<open>ROLLBACK\<close> and raised again, and an error of that
  \<open>ROLLBACK\<close> replaces it.
\<close>

definition counter_transaction ::
  "faults \<Rightarrow> int \<Rightarrow> string \<Rightarrow> int \<Rightarrow> int \<Rightarrow> pg_client \<Rightarrow> (string + int) \<times> pg_client" where
  "counter_transaction fl now dbKey increment rt db =
     (case pg_query fl Q_BEGIN db of
        (Some e, db1) \<Rightarrow> (Inl e, db1)
      | (None, db1) \<Rightarrow>
          (case counter_update fl now dbKey increment rt db1 of
             (Inr c, db2) \<Rightarrow> (Inr c, db2)
           | (Inl e, db2) \<Rightarrow>
               (case pg_query fl Q_ROLLBACK db2 of
                  (Some e', db3) \<Rightarrow> (Inl e', db3)
                | (None, db3) \<Rightarrow> (Inl e, db3))))"

definition rate_key :: "string \<Rightarrow> int \<Rightarrow> string" where
  "rate_key k window = ''ratelimit:'' @ k @ '':'' @ show_int window"

text \<open>
  \<open>checkRateLimit(key, limit, windowMs, increment)\<close>, on a client that answers its
  statements. The module variable \<open>pgClient\<close> is \<open>None\<close> when no database is configured.
  \<open>now\<close> is the reading of the clock; the second reading taken for the \<open>resetTime\<close> of
  a failed check is taken to be the same. Times and counts are integers and
  \<open>Math.floor(now / windowMs)\<close> is integer division, which is what the source computes
  for a positive window size (every caller passes a positive constant). The function
  returns the result object and the client's new state; the result's \<open>count\<close> is the
  field \<open>rl_count\<close>.
\<close>

definition checkRateLimit ::
  "faults \<Rightarrow> int \<Rightarrow> pg_client option \<Rightarrow> string \<Rightarrow> int \<Rightarrow> int \<Rightarrow> int
     \<Rightarrow> rl_result \<times> pg_client option" where
  "checkRateLimit fl now pgClient k lmt windowMs increment =
     (case pgClient of
        None \<Rightarrow>
          (\<lparr>allowed = True, rl_count = 0, remaining = lmt,
            resetTime = Some (now + windowMs), limit = None, error = None\<rparr>, None)
      | Some db \<Rightarrow>
          if lmt = - 1
          then (\<lparr>allowed = True, rl_count = 0, remaining = - 1,
                 resetTime = None, limit = None, error = None\<rparr>, Some db)
          else
            (let window = now div windowMs;
                 dbKey = rate_key k window;
                 rt = (window + 1) * windowMs
             in case counter_transaction fl now dbKey increment rt db of
                  (Inr currentCount, db') \<Rightarrow>
                    (\<lparr>allowed = (currentCount \<le> lmt),
                      rl_count = currentCount,
                      remaining = max 0 (lmt - currentCount),
                      resetTime = Some rt, limit = Some lmt, error = None\<rparr>, Some db')
                | (Inl msg, db') \<Rightarrow>
                    (\<lparr>allowed = True, rl_count = 0, remaining = lmt,
                      resetTime = Some (now + windowMs), limit = None,
                      error = Some msg\<rparr>, Some db')))"

text \<open>
  A sequence of checks on one key, one after the other: each element is the clock
  reading and the increment of one call.
\<close>

fun check_sequence ::
  "faults \<Rightarrow> pg_client option \<Rightarrow> string \<Rightarrow> int \<Rightarrow> int \<Rightarrow> (int \<times> int) list \<Rightarrow> rl_result list" where
  "check_sequence fl pgClient k lmt windowMs [] = []"
| "check_sequence fl pgClient k lmt windowMs ((now, increment) # rest) =
     (case checkRateLimit fl now pgClient k lmt windowMs increment of
        (r, pgClient') \<Rightarrow> r # check_sequence fl pgClient' k lmt windowMs rest)"

text \<open>
  Module load and a call as a whole. \<open>initializeDatabase\<close> returns early when
  \<open>DATABASE_URL\<close> is not set (or empty); otherwise it assigns the new client to the
  module variable and only then awaits \<open>connect()\<close>. When the connection fails the
  handler logs and returns, and the variable keeps the client: nothing resets it. After
  a successful connection the two \<open>CREATE\<close> statements are issued; an error of either
  is logged and the client stays as well.

  The client library sends a statement once the connection is ready for it. On a client
  that never connected a statement stays queued and is never answered, so the first
  \<open>await pgClient.query('BEGIN')\<close> of a check does not complete and the call does not
  return: that is the value \<open>None\<close> of \<open>checkRateLimit_call\<close>. The two early returns come
  before any statement and are not affected.
\<close>

datatype connect_outcome = Connect_ok | Connect_failed string

record rate_limit_module =
  module_pgClient :: "pg_client option"
  connected :: bool

definition initializeDatabase ::
  "faults \<Rightarrow> string option \<Rightarrow> connect_outcome \<Rightarrow> rate_table \<Rightarrow> rate_limit_module" where
  "initializeDatabase fl DATABASE_URL outcome stored =
     (case DATABASE_URL of
        None \<Rightarrow> \<lparr>module_pgClient = None, connected = False\<rparr>
      | Some url \<Rightarrow>
          if url = [] then \<lparr>module_pgClient = None, connected = False\<rparr>
          else
            (let client = \<lparr>committed = stored, pending = None, issued = []\<rparr>
             in case outcome of
                  Connect_failed msg \<Rightarrow> \<lparr>module_pgClient = Some client, connected = False\<rparr>
                | Connect_ok \<Rightarrow>
                    (case pg_query fl Q_CREATE_TABLE client of
                       (Some e, db1) \<Rightarrow> \<lparr>module_pgClient = Some db1, connected = True\<rparr>
                     | (None, db1) \<Rightarrow>
                         \<lparr>module_pgClient = Some (snd (pg_query fl Q_CREATE_INDEX db1)),
                          connected = True\<rparr>)))"

definition checkRateLimit_call ::
  "faults \<Rightarrow> int \<Rightarrow> rate_limit_module \<Rightarrow> string \<Rightarrow> int \<Rightarrow> int \<Rightarrow> int
     \<Rightarrow> (rl_result \<times> pg_client option) option" where
  "checkRateLimit_call fl now m k lmt windowMs increment =
     (case module_pgClient m of
        None \<Rightarrow> Some (checkRateLimit fl now None k lmt windowMs increment)
      | Some db \<Rightarrow>
          if lmt = - 1 then Some (checkRateLimit fl now (Some db) k lmt windowMs increment)
          else if connected m
          then Some (checkRateLimit fl now (Some db) k lmt windowMs increment)
          else None)"

text \<open>
  \<open>checkUserRateLimits(userId, apiKeyId, limits, tokenIncrement)\<close>. A limit guards its
  dimension by JavaScript truthiness (\<open>limits.x && limits.x !== -1\<close>): the number 0 is
  falsy. The calls pushed onto \<open>checks\<close> are listed first, each with its key, limit,
  window size and increment. The source starts them together on the one shared client,
  so that their statements reach the store interleaved (the three \<open>BEGIN\<close>, then the
  three \<open>DELETE\<close>, and so on); the model runs the checks one after the other in the
  order in which they were pushed. The keys of the dimensions differ, so each check
  reads and writes its own row, and the results are the same as long as no statement
  is rejected; under rejections the order of the statements and the rows that a
  \<open>ROLLBACK\<close> discards can differ from the model's.
\<close>

record rate_limits =
  requestsPerSecond :: int
  dailyRequests :: int
  tokensPerMinute :: int

record pending_check =
  check_key :: string
  check_limit :: int
  check_windowMs :: int
  check_increment :: int

definition requests_per_second_key :: "string \<Rightarrow> string" where
  "requests_per_second_key userId = ''user:'' @ userId @ '':requests_per_second''"

definition daily_requests_key :: "string \<Rightarrow> string" where
  "daily_requests_key userId = ''user:'' @ userId @ '':daily_requests''"

definition tokens_per_minute_key :: "string \<Rightarrow> string" where
  "tokens_per_minute_key userId = ''user:'' @ userId @ '':tokens_per_minute''"

definition user_checks :: "string \<Rightarrow> rate_limits \<Rightarrow> int \<Rightarrow> pending_check list" where
  "user_checks userId limits tokenIncrement =
     (if requestsPerSecond limits \<noteq> 0 \<and> requestsPerSecond limits \<noteq> - 1
      then [\<lparr>check_key = requests_per_second_key userId,
             check_limit = requestsPerSecond limits,
             check_windowMs = 1000, check_increment = 1\<rparr>]
      else []) @
     (if dailyRequests limits \<noteq> 0 \<and> dailyRequests limits \<noteq> - 1
      then [\<lparr>check_key = daily_requests_key userId,
             check_limit = dailyRequests limits,
             check_windowMs = 24 * 60 * 60 * 1000, check_increment = 1\<rparr>]
      else []) @
     (if tokensPerMinute limits \<noteq> 0 \<and> tokensPerMinute limits \<noteq> - 1 \<and> 0 < tokenIncrement
      then [\<lparr>check_key = tokens_per_minute_key userId,
             check_limit = tokensPerMinute limits,
             check_windowMs = 60 * 1000, check_increment = tokenIncrement\<rparr>]
      else [])"

fun run_checks ::
  "faults \<Rightarrow> int \<Rightarrow> pg_client option \<Rightarrow> pending_check list \<Rightarrow> rl_result list \<times> pg_client option" where
  "run_checks fl now pgClient [] = ([], pgClient)"
| "run_checks fl now pgClient (c # cs) =
     (case checkRateLimit fl now pgClient (check_key c) (check_limit c) (check_windowMs c)
             (check_increment c) of
        (r, pgClient') \<Rightarrow>
          (case run_checks fl now pgClient' cs of
             (rs, pgClient'') \<Rightarrow> (r # rs, pgClient'')))"

record user_result =
  u_allowed :: bool
  u_reason :: "string option"
  u_details :: "rl_result option"
  u_checks :: "rl_result list option"
  u_error :: "string option"
  u_limits :: rate_limits

text \<open>
  The \<open>try\<close>/\<open>catch\<close> around \<open>await Promise.all(checks)\<close>: the outcome is the list of the
  results, or the message of a rejection (\<open>Inl\<close>).
\<close>

definition settle_checks :: "rate_limits \<Rightarrow> string + rl_result list \<Rightarrow> user_result" where
  "settle_checks limits outcome =
     (case outcome of
        Inr results \<Rightarrow>
          (case find (\<lambda>r. \<not> allowed r) results of
             Some r \<Rightarrow>
               \<lparr>u_allowed = False, u_reason = Some ''rate_limit_exceeded'',
                u_details = Some r, u_checks = None, u_error = None, u_limits = limits\<rparr>
           | None \<Rightarrow>
               \<lparr>u_allowed = True, u_reason = None, u_details = None,
                u_checks = Some results, u_error = None, u_limits = limits\<rparr>)
      | Inl msg \<Rightarrow>
          \<lparr>u_allowed = True, u_reason = None, u_details = None, u_checks = None,
           u_error = Some msg, u_limits = limits\<rparr>)"

definition checkUserRateLimits ::
  "faults \<Rightarrow> int \<Rightarrow> pg_client option \<Rightarrow> string \<Rightarrow> string \<Rightarrow> rate_limits \<Rightarrow> int
     \<Rightarrow> user_result \<times> pg_client option" where
  "checkUserRateLimits fl now pgClient userId apiKeyId limits tokenIncrement =
     (case run_checks fl now pgClient (user_checks userId limits tokenIncrement) of
        (results, pgClient') \<Rightarrow> (settle_checks limits (Inr results), pgClient'))"

section \<open>Quota gate\<close>

text \<open>
  \<open>checkRateLimits(validation, estimatedTokens)\<close> of the account module: the rate
  limiter first, then the daily usage recorded with the account.
\<close>

record account_usage =
  requestsToday :: int
  tokensToday :: int

record validation =
  v_limits :: rate_limits
  v_usage :: account_usage
  userId :: string
  apiKeyId :: string

record gate_result =
  g_allowed :: bool
  g_reason :: "string option"
  g_message :: "string option"
  g_details :: "rl_result option"
  rateLimitInfo :: "user_result option"

definition exceeded_message :: "rl_result option \<Rightarrow> string" where
  "exceeded_message details =
     ''Rate limit exceeded: '' @
     (case Option.bind details limit of None \<Rightarrow> ''undefined'' | Some l \<Rightarrow> show_int l) @
     '' requests per '' @
     (case Option.bind details resetTime of
        None \<Rightarrow> ''second''
      | Some t \<Rightarrow> if t = 0 then ''second'' else ''window'')"

definition checkRateLimits ::
  "faults \<Rightarrow> int \<Rightarrow> pg_client option \<Rightarrow> validation \<Rightarrow> int \<Rightarrow> gate_result \<times> pg_client option" where
  "checkRateLimits fl now pgClient v estimatedTokens =
     (let rateLimits = \<lparr>requestsPerSecond = requestsPerSecond (v_limits v),
                        dailyRequests = dailyRequests (v_limits v),
                        tokensPerMinute = tokensPerMinute (v_limits v)\<rparr>
      in case checkUserRateLimits fl now pgClient (userId v) (apiKeyId v) rateLimits
                estimatedTokens of
           (rateLimitResult, pgClient') \<Rightarrow>
             if \<not> u_allowed rateLimitResult
             then (\<lparr>g_allowed = False, g_reason = u_reason rateLimitResult,
                    g_message = Some (exceeded_message (u_details rateLimitResult)),
                    g_details = u_details rateLimitResult, rateLimitInfo = None\<rparr>, pgClient')
             else if dailyRequests (v_limits v) \<noteq> - 1
                     \<and> dailyRequests (v_limits v) \<le> requestsToday (v_usage v)
             then (\<lparr>g_allowed = False, g_reason = Some ''daily_requests_exceeded_db'',
                    g_message = Some (''Daily request limit of ''
                       @ show_int (dailyRequests (v_limits v))
                       @ '' exceeded (database check)''),
                    g_details = None, rateLimitInfo = None\<rparr>, pgClient')
             else (\<lparr>g_allowed = True, g_reason = None, g_message = None, g_details = None,
                    rateLimitInfo = Some rateLimitResult\<rparr>, pgClient'))"

section \<open>Retry dispatcher\<close>



fun starts_with :: "string \<Rightarrow> string \<Rightarrow> bool" where
  "starts_with s [] = True"
| "starts_with [] (p # ps) = False"
| "starts_with (c # cs) (p # ps) = (c = p \<and> starts_with cs ps)"












record error_details =
  attempts :: nat
  lastStatusCode :: "nat option"
  lastErrorMessage :: "string option"
  errorCode :: "string option"
  details_allKeysFailed :: bool

record api_failure =
  failure_error :: string
  details :: error_details
  failure_statusCode :: nat






section \<open>Chat endpoint: validation and the input token estimate\<close>

text \<open>
  The handler's checks up to the point where the input tokens are estimated, in the
  order of the source. A request carries the HTTP method, the \<open>model\<close> query parameter,
  the body fields (absent fields are \<open>None\<close>) and the \<open>Authorization\<close> header. The body
  is a record with a list of message objects and numbers for \<open>temperature\<close> and
  \<open>max_tokens\<close>; bodies of other shapes are rejected by the handler's type tests and are
  not part of the model.

  The fields \<open>role\<close> and \<open>content\<close> of a message are tested for truthiness only, so
  they are any JSON value: a string, a truthy value that is not a string (a non-zero
  number, \<open>true\<close>, an array, an object), or a falsy value that is not a string (0,
  \<open>false\<close>, \<open>null\<close>, an absent field). Each carries the text that string conversion
  gives it, which is what \<open>join\<close> concatenates.
\<close>

datatype js_value = Text string | Truthy string | Falsy string

fun truthy :: "js_value \<Rightarrow> bool" where
  "truthy (Text s) = (s \<noteq> [])"
| "truthy (Truthy s) = True"
| "truthy (Falsy s) = False"

fun text_of :: "js_value \<Rightarrow> string" where
  "text_of (Text s) = s"
| "text_of (Truthy s) = s"
| "text_of (Falsy s) = s"

record chat_message =
  role :: js_value
  content :: js_value

record chat_request =
  http_method :: string
  query_model :: "string option"
  messages :: "chat_message list option"
  temperature :: "real option"
  max_tokens :: "real option"
  stream :: "bool option"
  authorization :: "string option"

record api_error =
  error_status :: nat
  error_code :: string

definition BadRequest :: "string \<Rightarrow> api_error" where
  "BadRequest c = \<lparr>error_status = 400, error_code = c\<rparr>"

definition Unauthorized :: "string \<Rightarrow> api_error" where
  "Unauthorized c = \<lparr>error_status = 401, error_code = c\<rparr>"

definition MethodNotAllowed :: api_error where
  "MethodNotAllowed = \<lparr>error_status = 405, error_code = ''METHOD_NOT_ALLOWED''\<rparr>"

definition VALID_MODELS :: "string list" where
  "VALID_MODELS = [''orzion-pro'', ''orzion-turbo'', ''orzion-mini'']"

record checked_request =
  chk_model :: string
  chk_messages :: "chat_message list"
  chk_temperature :: real
  chk_max_tokens :: real
  userApiKey :: string

datatype checked = Preflight | Rejected api_error | Accepted checked_request

fun check_messages :: "chat_message list \<Rightarrow> api_error option" where
  "check_messages [] = None"
| "check_messages (msg # rest) =
     (if \<not> truthy (role msg) \<or> \<not> truthy (content msg)
      then Some (BadRequest ''INVALID_MESSAGE_FORMAT'')
      else if role msg \<notin> set [Text ''system'', Text ''user'', Text ''assistant'']
      then Some (BadRequest ''INVALID_MESSAGE_ROLE'')
      else check_messages rest)"

text \<open>Characters that \<open>trim\<close> removes, among the 8-bit characters.\<close>

definition is_space :: "char \<Rightarrow> bool" where
  "is_space c = ((of_char c :: nat) \<in> {9, 10, 11, 12, 13, 32, 160})"

definition validate_request :: "chat_request \<Rightarrow> checked" where
  "validate_request req =
     (if http_method req = ''OPTIONS'' then Preflight
      else if http_method req \<noteq> ''POST'' then Rejected MethodNotAllowed
      else case query_model req of
        None \<Rightarrow> Rejected (BadRequest ''MISSING_MODEL'')
      | Some model \<Rightarrow>
      if model = [] then Rejected (BadRequest ''MISSING_MODEL'')
      else if model \<notin> set VALID_MODELS then Rejected (BadRequest ''INVALID_MODEL'')
      else case messages req of
        None \<Rightarrow> Rejected (BadRequest ''MISSING_MESSAGES'')
      | Some msgs \<Rightarrow>
      if msgs = [] then Rejected (BadRequest ''EMPTY_MESSAGES_ARRAY'')
      else case check_messages msgs of
        Some e \<Rightarrow> Rejected e
      | None \<Rightarrow>
      (let temp = (case temperature req of None \<Rightarrow> 7 / 10 | Some t \<Rightarrow> t);
           maxt = (case max_tokens req of None \<Rightarrow> 2048 | Some n \<Rightarrow> n)
       in if temp < 0 \<or> 2 < temp then Rejected (BadRequest ''INVALID_TEMPERATURE'')
          else if maxt < 1 \<or> 8192 < maxt then Rejected (BadRequest ''INVALID_MAX_TOKENS'')
          else if stream req = Some True then Rejected (BadRequest ''STREAMING_NOT_SUPPORTED'')
          else case authorization req of
            None \<Rightarrow> Rejected (Unauthorized ''MISSING_AUTH_TOKEN'')
          | Some authHeader \<Rightarrow>
          if \<not> starts_with authHeader ''Bearer ''
          then Rejected (Unauthorized ''MISSING_AUTH_TOKEN'')
          else if list_all is_space (drop 7 authHeader)
          then Rejected (Unauthorized ''EMPTY_API_KEY'')
          else Accepted \<lparr>chk_model = model, chk_messages = msgs, chk_temperature = temp,
                          chk_max_tokens = maxt, userApiKey = drop 7 authHeader\<rparr>))"

text \<open>
  \<open>Array.prototype.join\<close>, and the estimate \<open>Math.ceil(text.length / 4)\<close>. The three
  instruction preambles are long fixed texts of which only the length enters the
  estimate; the table \<open>SYSTEM_PROMPTS\<close> takes them as parameters. A model without an
  entry would contribute the text of \<open>undefined\<close>.
\<close>

fun join_with :: "string \<Rightarrow> string list \<Rightarrow> string" where
  "join_with sep [] = []"
| "join_with sep [x] = x"
| "join_with sep (x # y # ys) = x @ sep @ join_with sep (y # ys)"

definition estimateTokens :: "string \<Rightarrow> nat" where
  "estimateTokens text = nat \<lceil>real (length text) / 4\<rceil>"

definition SYSTEM_PROMPTS :: "string \<Rightarrow> string \<Rightarrow> string \<Rightarrow> (string \<rightharpoonup> string)" where
  "SYSTEM_PROMPTS pro turbo mini =
     [''orzion-pro'' \<mapsto> pro, ''orzion-turbo'' \<mapsto> turbo, ''orzion-mini'' \<mapsto> mini]"

definition inputTokens :: "(string \<rightharpoonup> string) \<Rightarrow> checked_request \<Rightarrow> nat" where
  "inputTokens prompts chk =
     (let messageText = join_with '' '' (map (\<lambda>m. text_of (content m)) (chk_messages chk))
      in estimateTokens
           (messageText @ (case prompts (chk_model chk) of
                             None \<Rightarrow> ''undefined''
                           | Some preamble \<Rightarrow> preamble)))"


section \<open>Vocabulary of the properties\<close>

text \<open>
  The count stored for a key in the committed table (0 when there is no row).
\<close>

definition stored_count :: "pg_client \<Rightarrow> string \<Rightarrow> int" where
  "stored_count db k = (case committed db k of None \<Rightarrow> 0 | Some r \<Rightarrow> count r)"


subsection \<open>Concrete inputs\<close>

text \<open>
  An environment with three keys for \<open>orzion-pro\<close>, one usable key for \<open>orzion-turbo\<close>
  (the second variable is set to the empty string) and none for \<open>orzion-mini\<close>.
\<close>

definition example_env :: environment where
  "example_env =
     [''ORZION_PRO_API_KEY_1'' \<mapsto> ''sk-pro-1'',
      ''ORZION_PRO_API_KEY_2'' \<mapsto> ''sk-pro-2'',
      ''ORZION_PRO_API_KEY_3'' \<mapsto> ''sk-pro-3'',
      ''ORZION_TURBO_API_KEY_1'' \<mapsto> ''sk-turbo-1'',
      ''ORZION_TURBO_API_KEY_2'' \<mapsto> []]"

definition example_pro :: key_config where
  "example_pro =
     \<lparr>modelId = ''qwen/qwen-2.5-72b-instruct:free'',
      keys = [''sk-pro-1'', ''sk-pro-2'', ''sk-pro-3''],
      currentIndex = 0, failureCount = 0\<rparr>"

text \<open>A connected client with an empty table, and the two extreme environments.\<close>

definition empty_db :: pg_client where
  "empty_db = \<lparr>committed = Map.empty, pending = None, issued = []\<rparr>"

definition no_faults :: faults where
  "no_faults = (\<lambda>n. None)"

definition unreachable :: faults where
  "unreachable = (\<lambda>n. Some ''Connection terminated unexpectedly'')"

text \<open>
  An account at its daily limit (100 of 100 requests recorded) and an account whose
  limits are all 0.
\<close>

definition account_at_limit :: validation where
  "account_at_limit =
     \<lparr>v_limits = \<lparr>requestsPerSecond = 10, dailyRequests = 100, tokensPerMinute = 1000\<rparr>,
      v_usage = \<lparr>requestsToday = 100, tokensToday = 0\<rparr>,
      userId = ''u1'', apiKeyId = ''key1''\<rparr>"

definition account_zero :: validation where
  "account_zero =
     \<lparr>v_limits = \<lparr>requestsPerSecond = 0, dailyRequests = 0, tokensPerMinute = 0\<rparr>,
      v_usage = \<lparr>requestsToday = 0, tokensToday = 0\<rparr>,
      userId = ''u1'', apiKeyId = ''key1''\<rparr>"






text \<open>A well-formed chat request with two messages, and what the handler keeps of it.\<close>

definition example_request :: chat_request where
  "example_request =
     \<lparr>http_method = ''POST'', query_model = Some ''orzion-mini'',
      messages = Some [\<lparr>role = Text ''user'', content = Text ''hi''\<rparr>,
                       \<lparr>role = Text ''user'', content = Text ''friends''\<rparr>],
      temperature = Some (7 / 10), max_tokens = None, stream = None,
      authorization = Some ''Bearer sk-user-1''\<rparr>"

definition example_checked :: checked_request where
  "example_checked =
     \<lparr>chk_model = ''orzion-mini'',
      chk_messages = [\<lparr>role = Text ''user'', content = Text ''hi''\<rparr>,
                      \<lparr>role = Text ''user'', content = Text ''friends''\<rparr>],
      chk_temperature = 7 / 10, chk_max_tokens = 2048, userApiKey = ''sk-user-1''\<rparr>"

section \<open>Properties of the credential pool\<close>

lemma rotateApiKey_Some:
  "p model = Some config \<Longrightarrow> keys config \<noteq> [] \<Longrightarrow>
   rotateApiKey model reason p =
     p(model \<mapsto> config\<lparr>currentIndex := (currentIndex config + 1) mod length (keys config),
                          failureCount := failureCount config + 1\<rparr>)"
  by (simp add: rotateApiKey_def)

lemma rotate_many:
  "p model = Some config \<Longrightarrow> keys config \<noteq> [] \<Longrightarrow>
   currentIndex config < length (keys config) \<Longrightarrow>
   pool_run (map (RotateApiKey model) reasons) p model =
     Some (config\<lparr>currentIndex := (currentIndex config + length reasons) mod length (keys config),
                  failureCount := failureCount config + length reasons\<rparr>)"
proof (induction reasons arbitrary: p config)
  case Nil
  then show ?case by simp
next
  case (Cons r rs)
  let ?c = "config\<lparr>currentIndex := (currentIndex config + 1) mod length (keys config),
                    failureCount := failureCount config + 1\<rparr>"
  have step: "rotateApiKey model r p model = Some ?c"
    using Cons.prems by (simp add: rotateApiKey_Some)
  have "pool_run (map (RotateApiKey model) rs) (rotateApiKey model r p) model =
     Some (?c\<lparr>currentIndex := (currentIndex ?c + length rs) mod length (keys ?c),
              failureCount := failureCount ?c + length rs\<rparr>)"
    using Cons.prems by (intro Cons.IH [of "rotateApiKey model r p" ?c, OF step]) simp_all
  then show ?case by (simp add: mod_add_left_eq add.assoc)
qed

lemma pool_exec_index:
  assumes "\<forall>m c. p m = Some c \<longrightarrow> keys c \<noteq> [] \<longrightarrow> currentIndex c < length (keys c)"
  shows "\<forall>m c. snd (pool_exec call p) m = Some c \<longrightarrow> keys c \<noteq> [] \<longrightarrow> currentIndex c < length (keys c)"
  using assms
  by (cases call) (auto simp: rotateApiKey_def resetFailureCount_def split: option.splits if_splits)

lemma pool_run_index:
  "\<forall>m c. p m = Some c \<longrightarrow> keys c \<noteq> [] \<longrightarrow> currentIndex c < length (keys c) \<Longrightarrow>
   \<forall>m c. pool_run calls p m = Some c \<longrightarrow> keys c \<noteq> [] \<longrightarrow> currentIndex c < length (keys c)"
proof (induction calls arbitrary: p)
  case Nil
  then show ?case by simp
next
  case (Cons call calls)
  show ?case
    unfolding pool_run.simps
    by (rule Cons.IH) (rule pool_exec_index [OF Cons.prems])
qed

lemma initial_index:
  "API_KEY_CONFIG env m = Some c \<Longrightarrow> currentIndex c = 0"
  by (auto simp: API_KEY_CONFIG_def split: if_splits)

lemma read_only_calls: "\<not> is_mutator call \<Longrightarrow> snd (pool_exec call p) = p"
  by (cases call) simp_all


lemma example_pool_pro: "API_KEY_CONFIG example_env ''orzion-pro'' = Some example_pro"
  by (simp add: API_KEY_CONFIG_def example_env_def example_pro_def configured_keys_def
      List.map_filter_def truthy_key_def)

text \<open>
  Claim C3. For a model with N \<ge> 1 configured credentials: from current index 0, N
  consecutive rotations bring the current index back to 0; one rotation advances the
  index by 1 modulo N and adds 1 to the failure count; \<open>allKeysFailed\<close> holds exactly
  when the failure count is at least N; \<open>resetFailureCount\<close> sets the failure count to 0
  and leaves every other field, the current index among them, as it was, after which
  \<open>allKeysFailed\<close> is false.
\<close>

theorem credential_rotation_cycle:
  assumes "p model = Some config" and "keys config \<noteq> []"
  shows "(currentIndex config = 0 \<and> length reasons = length (keys config) \<longrightarrow>
            map_option currentIndex (pool_run (map (RotateApiKey model) reasons) p model) = Some 0)
       \<and> rotateApiKey model reason p model =
            Some (config\<lparr>currentIndex := (currentIndex config + 1) mod length (keys config),
                         failureCount := failureCount config + 1\<rparr>)
       \<and> allKeysFailed model p = (length (keys config) \<le> failureCount config)
       \<and> resetFailureCount model p model = Some (config\<lparr>failureCount := 0\<rparr>)
       \<and> \<not> allKeysFailed model (resetFailureCount model p)"
proof -
  have cycle: "map_option currentIndex (pool_run (map (RotateApiKey model) reasons) p model) = Some 0"
    if "currentIndex config = 0" and "length reasons = length (keys config)"
    using rotate_many [of p model config reasons] that assms by simp
  have rotate: "rotateApiKey model reason p model =
            Some (config\<lparr>currentIndex := (currentIndex config + 1) mod length (keys config),
                         failureCount := failureCount config + 1\<rparr>)"
    using assms by (simp add: rotateApiKey_Some)
  have failed: "allKeysFailed model p = (length (keys config) \<le> failureCount config)"
    using assms by (simp add: allKeysFailed_def)
  have reset: "resetFailureCount model p model = Some (config\<lparr>failureCount := 0\<rparr>)"
    using assms by (simp add: resetFailureCount_def)
  have fresh: "\<not> allKeysFailed model (resetFailureCount model p)"
    using assms reset by (simp add: allKeysFailed_def)
  from cycle rotate failed reset fresh show ?thesis by blast
qed

theorem credential_rotation_cycle_witness:
  "map_option currentIndex
     (pool_run (map (RotateApiKey ''orzion-pro'') [''rate_limit'', ''timeout'', ''server_error''])
        (API_KEY_CONFIG example_env) ''orzion-pro'') = Some 0
   \<and> map_option currentIndex
       (rotateApiKey ''orzion-pro'' ''rate_limit'' (API_KEY_CONFIG example_env) ''orzion-pro'') = Some 1
   \<and> \<not> allKeysFailed ''orzion-pro'' (API_KEY_CONFIG example_env)
   \<and> \<not> allKeysFailed ''orzion-pro'' (resetFailureCount ''orzion-pro'' (API_KEY_CONFIG example_env))"
proof -
  have k: "keys example_pro \<noteq> []" by (simp add: example_pro_def)
  show ?thesis
    using credential_rotation_cycle [of "API_KEY_CONFIG example_env" "''orzion-pro''" example_pro
        "[''rate_limit'', ''timeout'', ''server_error'']" "''rate_limit''"] example_pool_pro k
    by (simp add: example_pro_def)
qed

text \<open>
  Claim C7. In the table built at module load, and after any sequence of calls of the
  exported functions, a model with a non-empty key list has its current index below the
  length of the list; every exported function other than \<open>rotateApiKey\<close> and
  \<open>resetFailureCount\<close> leaves the whole table, current indices and failure counts
  included, as it was.
\<close>

theorem pool_index_in_range:
  "(pool_run calls (API_KEY_CONFIG env) model = Some config \<and> keys config \<noteq> []
      \<longrightarrow> currentIndex config < length (keys config))
   \<and> (\<not> is_mutator call \<longrightarrow> snd (pool_exec call p) = p)"
proof -
  have init: "\<forall>m c. API_KEY_CONFIG env m = Some c \<longrightarrow> keys c \<noteq> []
                \<longrightarrow> currentIndex c < length (keys c)"
    by (auto simp: initial_index)
  show ?thesis
    using pool_run_index [OF init, of calls] read_only_calls [of call p] by blast
qed

theorem pool_index_in_range_witness:
  "(\<exists>config.
      pool_run [RotateApiKey ''orzion-pro'' ''rate_limit'', GetCurrentApiKey ''orzion-pro'',
                ResetFailureCount ''orzion-pro'', RotateApiKey ''orzion-pro'' ''timeout'']
        (API_KEY_CONFIG example_env) ''orzion-pro'' = Some config
      \<and> keys config \<noteq> [] \<and> currentIndex config = 2 \<and> currentIndex config < length (keys config))
   \<and> snd (pool_exec (AllKeysFailed ''orzion-pro'') (API_KEY_CONFIG example_env))
       = API_KEY_CONFIG example_env"
proof -
  let ?calls = "[RotateApiKey ''orzion-pro'' ''rate_limit'', GetCurrentApiKey ''orzion-pro'',
                ResetFailureCount ''orzion-pro'', RotateApiKey ''orzion-pro'' ''timeout'']"
  let ?c = "example_pro\<lparr>currentIndex := 2, failureCount := 1\<rparr>"
  have run: "pool_run ?calls (API_KEY_CONFIG example_env) ''orzion-pro'' = Some ?c"
    using example_pool_pro
    by (simp add: rotateApiKey_def resetFailureCount_def example_pro_def)
  have k: "keys ?c \<noteq> []" by (simp add: example_pro_def)
  note inst = pool_index_in_range [of ?calls example_env "''orzion-pro''" ?c
        "AllKeysFailed ''orzion-pro''" "API_KEY_CONFIG example_env"]
  have "currentIndex ?c < length (keys ?c)"
    using inst run k by blast
  moreover have "snd (pool_exec (AllKeysFailed ''orzion-pro'') (API_KEY_CONFIG example_env))
       = API_KEY_CONFIG example_env"
    using inst by simp
  ultimately show ?thesis using run k
    by (intro conjI exI [of _ ?c]) simp_all
qed

subsection \<open>Names that resolve through the prototype chain\<close>

lemma constructor_lookup: "property_lookup (API_KEY_CONFIG env) ''constructor'' = Object_function"
  by (simp add: property_lookup_def API_KEY_CONFIG_def)

lemma guarded_names:
  assumes "property_lookup (table s) model \<noteq> Object_function"
    and "\<forall>config. property_lookup (table s) model = Config config \<longrightarrow> keys config = []"
  shows "call_rotateApiKey model reason s = s \<and> call_allKeysFailed model s"
proof (cases "property_lookup (table s) model")
  case (Config config)
  then have "table s model = Some config"
    by (auto simp: property_lookup_def split: option.splits if_splits)
  moreover have "keys config = []" using assms(2) Config by simp
  ultimately show ?thesis
    using Config by (simp add: call_rotateApiKey_def call_allKeysFailed_def rotateApiKey_def
        allKeysFailed_def)
next
  case Object_function
  then show ?thesis using assms(1) by simp
next
  case Other_inherited
  then show ?thesis by (simp add: call_rotateApiKey_def call_allKeysFailed_def)
next
  case No_property
  then show ?thesis by (simp add: call_rotateApiKey_def call_allKeysFailed_def)
qed

text \<open>
  Claim C10 (for a model name without configured credentials, unknown names included,
  \<open>rotateApiKey\<close> modifies no state and \<open>allKeysFailed\<close> is true), evaluated at the model
  name \<open>constructor\<close>, for which no environment configures a credential: in the state at
  module load \<open>allKeysFailed\<close> is false, and \<open>rotateApiKey\<close> assigns \<open>NaN\<close> to
  \<open>currentIndex\<close> and to \<open>failureCount\<close> of the object it looked up, which leaves a state
  different from the one at load.
\<close>

theorem constructor_is_not_guarded:
  "\<not> call_allKeysFailed ''constructor'' (module_load env)
   \<and> call_rotateApiKey ''constructor'' reason (module_load env) =
       (module_load env)\<lparr>Object_currentIndex := NaN, Object_failureCount := NaN\<rparr>
   \<and> call_rotateApiKey ''constructor'' reason (module_load env) \<noteq> module_load env"
  by (simp add: call_allKeysFailed_def call_rotateApiKey_def module_load_def constructor_lookup)

theorem constructor_is_not_guarded_witness:
  "\<not> call_allKeysFailed ''constructor'' (module_load example_env)
   \<and> Object_failureCount (call_rotateApiKey ''constructor'' ''rate_limit'' (module_load example_env))
       = NaN
   \<and> call_allKeysFailed ''gpt-4'' (module_load example_env)
   \<and> call_rotateApiKey ''gpt-4'' ''rate_limit'' (module_load example_env) = module_load example_env"
proof -
  have other: "property_lookup (table (module_load example_env)) ''gpt-4'' = No_property"
    by (simp add: property_lookup_def module_load_def API_KEY_CONFIG_def
        OBJECT_PROTOTYPE_NAMES_def)
  show ?thesis
    using constructor_is_not_guarded [of example_env "''rate_limit''"]
      guarded_names [of "module_load example_env" "''gpt-4''" "''rate_limit''"] other
    by simp
qed


section \<open>Properties of the rate limiter\<close>

subsection \<open>Rejected statements\<close>

lemma begin_rejected:
  assumes "fl (length (issued db)) = Some msg" and "lmt \<noteq> - 1"
  shows "fst (checkRateLimit fl now (Some db) k lmt windowMs increment) =
     \<lparr>allowed = True, rl_count = 0, remaining = lmt, resetTime = Some (now + windowMs),
      limit = None, error = Some msg\<rparr>"
  using assms by (simp add: checkRateLimit_def Let_def counter_transaction_def pg_query_def)

lemma denied_is_counted:
  assumes "\<not> allowed (fst (checkRateLimit fl now pgClient k lmt windowMs increment))"
  shows "error (fst (checkRateLimit fl now pgClient k lmt windowMs increment)) = None
       \<and> lmt < rl_count (fst (checkRateLimit fl now pgClient k lmt windowMs increment))"
  using assms
  by (auto simp: checkRateLimit_def Let_def split: option.splits if_splits prod.splits sum.splits)

subsection \<open>Counting within one window\<close>

lemma window_end_after_now:
  fixes now windowMs :: int
  assumes "0 < windowMs"
  shows "now < (now div windowMs + 1) * windowMs"
proof -
  have "windowMs * (now div windowMs) + now mod windowMs = now"
    by (rule mult_div_mod_eq)
  moreover have "now mod windowMs < windowMs" using assms by simp
  ultimately have "now < windowMs * (now div windowMs) + windowMs" by linarith
  then show ?thesis by (simp add: algebra_simps)
qed

lemma checkRateLimit_counts:
  assumes nofault: "\<forall>n. fl n = None"
    and idle: "pending db = None"
    and lmt: "lmt \<noteq> - 1"
    and pos: "0 < windowMs"
    and inv: "\<forall>row. committed db (rate_key k (now div windowMs)) = Some row \<longrightarrow>
                reset_time row = (now div windowMs + 1) * windowMs"
    and key: "length (rate_key k (now div windowMs)) \<le> 255"
    and rt: "fits_BIGINT ((now div windowMs + 1) * windowMs)"
    and fits: "fits_INTEGER (stored_count db (rate_key k (now div windowMs)) + increment)"
  shows "\<exists>db'. checkRateLimit fl now (Some db) k lmt windowMs increment =
     (\<lparr>allowed = (stored_count db (rate_key k (now div windowMs)) + increment \<le> lmt),
       rl_count = stored_count db (rate_key k (now div windowMs)) + increment,
       remaining = max 0 (lmt - (stored_count db (rate_key k (now div windowMs)) + increment)),
       resetTime = Some ((now div windowMs + 1) * windowMs),
       limit = Some lmt, error = None\<rparr>, Some db')
     \<and> pending db' = None
     \<and> stored_count db' (rate_key k (now div windowMs))
         = stored_count db (rate_key k (now div windowMs)) + increment
     \<and> (\<forall>row. committed db' (rate_key k (now div windowMs)) = Some row \<longrightarrow>
           reset_time row = (now div windowMs + 1) * windowMs)"
proof (cases "committed db (rate_key k (now div windowMs))")
  case None
  then show ?thesis
    using nofault idle lmt key rt fits
    by (simp add: checkRateLimit_def counter_transaction_def counter_update_def pg_query_def
        Let_def visible_def write_table_def select_count_def stored_count_def)
next
  case (Some row)
  then have "reset_time row = (now div windowMs + 1) * windowMs" using inv by simp
  then have "\<not> reset_time row < now"
    using window_end_after_now [OF pos, of now] by simp
  then show ?thesis
    using nofault idle lmt Some inv fits
    by (simp add: checkRateLimit_def counter_transaction_def counter_update_def pg_query_def
        Let_def visible_def write_table_def select_count_def stored_count_def)
qed

lemma check_sequence_nth:
  assumes nofault: "\<forall>n. fl n = None"
    and lmt: "lmt \<noteq> - 1"
    and pos: "0 < windowMs"
    and key: "length (rate_key k w) \<le> 255"
    and rt: "fits_BIGINT ((w + 1) * windowMs)"
  shows "pending db = None \<Longrightarrow>
    \<forall>(now, increment) \<in> set calls. now div windowMs = w \<Longrightarrow>
    \<forall>row. committed db (rate_key k w) = Some row \<longrightarrow> reset_time row = (w + 1) * windowMs \<Longrightarrow>
    \<forall>j < length calls.
       fits_INTEGER (stored_count db (rate_key k w) + sum_list (map snd (take (Suc j) calls))) \<Longrightarrow>
    i < length calls \<Longrightarrow>
    check_sequence fl (Some db) k lmt windowMs calls ! i =
      \<lparr>allowed = (stored_count db (rate_key k w) + sum_list (map snd (take (Suc i) calls)) \<le> lmt),
       rl_count = stored_count db (rate_key k w) + sum_list (map snd (take (Suc i) calls)),
       remaining = max 0 (lmt - (stored_count db (rate_key k w)
                                  + sum_list (map snd (take (Suc i) calls)))),
       resetTime = Some ((w + 1) * windowMs), limit = Some lmt, error = None\<rparr>"
proof (induction calls arbitrary: db i)
  case Nil
  then show ?case by simp
next
  case (Cons call calls)
  obtain now increment where call: "call = (now, increment)" by (cases call)
  have w: "now div windowMs = w" using Cons.prems(2) call by simp
  have head: "fits_INTEGER (stored_count db (rate_key k w) + increment)"
    using Cons.prems(4) call by auto
  from checkRateLimit_counts [OF nofault Cons.prems(1) lmt pos, of k now increment]
    Cons.prems(3) w key rt head
  obtain db' where step: "checkRateLimit fl now (Some db) k lmt windowMs increment =
       (\<lparr>allowed = (stored_count db (rate_key k w) + increment \<le> lmt),
         rl_count = stored_count db (rate_key k w) + increment,
         remaining = max 0 (lmt - (stored_count db (rate_key k w) + increment)),
         resetTime = Some ((w + 1) * windowMs), limit = Some lmt, error = None\<rparr>, Some db')"
    and idle': "pending db' = None"
    and stored': "stored_count db' (rate_key k w) = stored_count db (rate_key k w) + increment"
    and inv': "\<forall>row. committed db' (rate_key k w) = Some row \<longrightarrow> reset_time row = (w + 1) * windowMs"
    by auto
  show ?case
  proof (cases i)
    case 0
    then show ?thesis using step call by simp
  next
    case (Suc j)
    then have j: "j < length calls" using Cons.prems(5) by simp
    have rest: "\<forall>(now, increment) \<in> set calls. now div windowMs = w"
      using Cons.prems(2) by simp
    have fits': "\<forall>j < length calls.
       fits_INTEGER (stored_count db' (rate_key k w) + sum_list (map snd (take (Suc j) calls)))"
    proof (intro allI impI)
      fix n assume "n < length calls"
      then have "fits_INTEGER (stored_count db (rate_key k w)
                   + sum_list (map snd (take (Suc (Suc n)) (call # calls))))"
        using Cons.prems(4) by auto
      then show "fits_INTEGER (stored_count db' (rate_key k w)
                   + sum_list (map snd (take (Suc n) calls)))"
        using stored' call by (simp add: add.assoc)
    qed
    note IH = Cons.IH [OF idle' rest inv' fits' j]
    show ?thesis using step call Suc stored' IH by (simp add: add.assoc)
  qed
qed

lemma sum_take_mono:
  fixes xs :: "int list"
  assumes "\<forall>x \<in> set xs. 0 \<le> x" and "i \<le> j"
  shows "sum_list (take i xs) \<le> sum_list (take j xs)"
proof -
  have "take j xs = take i xs @ take (j - i) (drop i xs)"
    using assms(2) by (metis le_add_diff_inverse take_add)
  moreover have "0 \<le> sum_list (take (j - i) (drop i xs))"
    using assms(1) by (intro sum_list_nonneg) (auto dest: in_set_takeD in_set_dropD)
  ultimately show ?thesis by simp
qed


text \<open>
  Claim C1, as amended. Let the limit differ from -1, the window size be positive, the
  store be connected with no transaction open, and let the store accept every statement
  of the checks: the environment raises no error, the counter key has at most 255
  characters, the reset time of the window fits \<open>BIGINT\<close> and every cumulative count
  (the stored count plus the increments so far) fits \<open>INTEGER\<close>. Let a sequence of checks
  on one key fall into one window \<open>w\<close>, whose counter row, if it exists already, carries
  the reset time of that window. Then the i-th check returns \<open>allowed = true\<close> exactly
  when the cumulative count up to and including its increment is at most the limit, its
  count is that cumulative count and its remaining is \<open>max(0, limit - count)\<close>. When no
  increment is negative, a denied check is followed only by denied checks in that
  window.
\<close>

theorem rate_limit_window_counting:
  assumes "lmt \<noteq> - 1" and "0 < windowMs" and "\<forall>n. fl n = None" and "pending db = None"
    and "\<forall>(now, increment) \<in> set calls. now div windowMs = w"
    and "\<forall>row. committed db (rate_key k w) = Some row \<longrightarrow> reset_time row = (w + 1) * windowMs"
    and "length (rate_key k w) \<le> 255" and "fits_BIGINT ((w + 1) * windowMs)"
    and "\<forall>j < length calls.
           fits_INTEGER (stored_count db (rate_key k w) + sum_list (map snd (take (Suc j) calls)))"
    and "i < length calls"
  shows "let results = check_sequence fl (Some db) k lmt windowMs calls;
             cumulative = stored_count db (rate_key k w) + sum_list (map snd (take (Suc i) calls))
         in allowed (results ! i) = (cumulative \<le> lmt)
            \<and> rl_count (results ! i) = cumulative
            \<and> remaining (results ! i) = max 0 (lmt - cumulative)
            \<and> ((\<forall>(now, increment) \<in> set calls. 0 \<le> increment) \<and> \<not> allowed (results ! i)
                 \<longrightarrow> (\<forall>j. i \<le> j \<and> j < length calls \<longrightarrow> \<not> allowed (results ! j)))"
proof -
  let ?results = "check_sequence fl (Some db) k lmt windowMs calls"
  let ?cum = "\<lambda>n. stored_count db (rate_key k w) + sum_list (map snd (take (Suc n) calls))"
  have nth: "?results ! n =
      \<lparr>allowed = (?cum n \<le> lmt), rl_count = ?cum n, remaining = max 0 (lmt - ?cum n),
       resetTime = Some ((w + 1) * windowMs), limit = Some lmt, error = None\<rparr>"
    if "n < length calls" for n
    by (rule check_sequence_nth [OF assms(3) assms(1) assms(2) assms(7) assms(8) assms(4)
          assms(5) assms(6) assms(9) that])
  have later: "\<not> allowed (?results ! j)"
    if nonneg: "\<forall>(now, increment) \<in> set calls. 0 \<le> increment"
      and denied: "\<not> allowed (?results ! i)" and ij: "i \<le> j" and j: "j < length calls" for j
  proof -
    have "\<forall>x \<in> set (map snd calls). 0 \<le> x" using nonneg by auto
    then have "sum_list (take (Suc i) (map snd calls)) \<le> sum_list (take (Suc j) (map snd calls))"
      using ij by (intro sum_take_mono) simp_all
    then have "?cum i \<le> ?cum j" by (simp add: take_map)
    moreover have "lmt < ?cum i" using denied nth [OF assms(10)] by simp
    ultimately show ?thesis using nth [OF j] by simp
  qed
  show ?thesis
    unfolding Let_def using nth [OF assms(10)] later by simp
qed

theorem rate_limit_window_counting_witness:
  "allowed (check_sequence no_faults (Some empty_db) ''user:u1:requests_per_second'' 2 1000
              [(5000, 1), (5200, 1), (5900, 1), (5950, 1)] ! 1)
   \<and> \<not> allowed (check_sequence no_faults (Some empty_db) ''user:u1:requests_per_second'' 2 1000
              [(5000, 1), (5200, 1), (5900, 1), (5950, 1)] ! 2)
   \<and> rl_count (check_sequence no_faults (Some empty_db) ''user:u1:requests_per_second'' 2 1000
              [(5000, 1), (5200, 1), (5900, 1), (5950, 1)] ! 2) = 3
   \<and> remaining (check_sequence no_faults (Some empty_db) ''user:u1:requests_per_second'' 2 1000
              [(5000, 1), (5200, 1), (5900, 1), (5950, 1)] ! 2) = 0
   \<and> \<not> allowed (check_sequence no_faults (Some empty_db) ''user:u1:requests_per_second'' 2 1000
              [(5000, 1), (5200, 1), (5900, 1), (5950, 1)] ! 3)"
proof -
  let ?calls = "[(5000, 1), (5200, 1), (5900, 1), (5950, 1)] :: (int \<times> int) list"
  have window: "\<forall>(now, increment) \<in> set ?calls. now div 1000 = 5" by simp
  have row: "\<forall>row. committed empty_db (rate_key ''user:u1:requests_per_second'' 5) = Some row
               \<longrightarrow> reset_time row = (5 + 1) * 1000"
    by (simp add: empty_db_def)
  have nofault: "\<forall>n. no_faults n = None" by (simp add: no_faults_def)
  have idle: "pending empty_db = None" by (simp add: empty_db_def)
  have zero: "stored_count empty_db (rate_key ''user:u1:requests_per_second'' 5) = 0"
    by (simp add: stored_count_def empty_db_def)
  have key: "length (rate_key ''user:u1:requests_per_second'' 5) \<le> 255"
    by (simp add: rate_key_def show_int_def)
  have rt: "fits_BIGINT ((5 + 1) * 1000)" by (simp add: fits_BIGINT_def)
  have fits: "\<forall>j < length ?calls.
      fits_INTEGER (stored_count empty_db (rate_key ''user:u1:requests_per_second'' 5)
                     + sum_list (map snd (take (Suc j) ?calls)))"
    unfolding zero by (auto simp: fits_INTEGER_def less_Suc_eq eval_nat_numeral)
  have second: "allowed (check_sequence no_faults (Some empty_db)
                  ''user:u1:requests_per_second'' 2 1000 ?calls ! 1)"
    using rate_limit_window_counting [of 2 1000 no_faults empty_db ?calls 5
        "''user:u1:requests_per_second''" 1] window row nofault idle zero key rt fits
    by (simp add: Let_def)
  have third: "\<not> allowed (check_sequence no_faults (Some empty_db)
                  ''user:u1:requests_per_second'' 2 1000 ?calls ! 2)
      \<and> rl_count (check_sequence no_faults (Some empty_db)
                  ''user:u1:requests_per_second'' 2 1000 ?calls ! 2) = 3
      \<and> remaining (check_sequence no_faults (Some empty_db)
                  ''user:u1:requests_per_second'' 2 1000 ?calls ! 2) = 0
      \<and> (\<forall>j. 2 \<le> j \<and> j < 4 \<longrightarrow> \<not> allowed (check_sequence no_faults (Some empty_db)
                  ''user:u1:requests_per_second'' 2 1000 ?calls ! j))"
    using rate_limit_window_counting [of 2 1000 no_faults empty_db ?calls 5
        "''user:u1:requests_per_second''" 2] window row nofault idle zero key rt fits
    by (simp add: Let_def)
  then have "\<not> allowed (check_sequence no_faults (Some empty_db)
                  ''user:u1:requests_per_second'' 2 1000 ?calls ! 3)"
    by simp
  with second third show ?thesis by simp
qed

text \<open>
  Claim C1 as stated, for every sequence of increments, fails at these inputs. With
  limit 2, the increments 3 and -2 in one window give a denied check (cumulative count
  3) followed by an allowed one (cumulative count 1). With limit 10, the single
  increment 3000000000 has a cumulative count above the limit, but the count does not
  fit the column, the \<open>INSERT\<close> is rejected and the check returns \<open>allowed = true\<close> with
  count 0. With a key of 250 characters the counter key has 262, the \<open>INSERT\<close> is
  rejected as well, and the returned count is 0 where the cumulative count is 1.
\<close>

theorem rate_limit_window_counting_counterexample:
  "map allowed (check_sequence no_faults (Some empty_db) ''user:u1:tokens_per_minute'' 2 60000
                  [(5000, 3), (5100, - 2)]) = [False, True]
   \<and> map (\<lambda>r. (allowed r, rl_count r, error r))
        (check_sequence no_faults (Some empty_db) ''user:u1:tokens_per_minute'' 10 60000
           [(5000, 3000000000)]) = [(True, 0, Some ''integer out of range'')]
   \<and> map (\<lambda>r. (allowed r, rl_count r, error r))
        (check_sequence no_faults (Some empty_db) (replicate 250 (CHR ''x'')) 10 60000
           [(5000, 1)]) = [(True, 0, Some ''value too long for type character varying(255)'')]"
  by (simp add: checkRateLimit_def counter_transaction_def counter_update_def pg_query_def
      Let_def visible_def write_table_def select_count_def no_faults_def empty_db_def
      rate_key_def show_int_def fits_INTEGER_def fits_BIGINT_def)

text \<open>
  Claim C6. For the limit -1 the check returns \<open>allowed = true\<close> with count 0 and
  remaining -1, whatever the environment does, and the client is returned as it was:
  the same committed table, no transaction opened and no statement issued.
\<close>

theorem unlimited_leaves_store_untouched:
  "checkRateLimit fl now pgClient k (- 1) windowMs increment =
     (\<lparr>allowed = True, rl_count = 0, remaining = - 1,
       resetTime = (case pgClient of None \<Rightarrow> Some (now + windowMs) | Some db \<Rightarrow> None),
       limit = None, error = None\<rparr>, pgClient)"
  by (simp add: checkRateLimit_def split: option.splits)

theorem unlimited_leaves_store_untouched_witness:
  "checkRateLimit unreachable 5000 (Some empty_db) ''user:u1:daily_requests'' (- 1) 86400000 1 =
     (\<lparr>allowed = True, rl_count = 0, remaining = - 1, resetTime = None,
       limit = None, error = None\<rparr>, Some empty_db)"
  using unlimited_leaves_store_untouched [of unreachable 5000 "Some empty_db"
      "''user:u1:daily_requests''" 86400000 1]
  by simp

text \<open>
  Claim C5 (an unreachable store makes \<open>checkRateLimit\<close> return \<open>allowed = true\<close> with the
  error message), evaluated for a store that could not be reached when the module was
  loaded: \<open>DATABASE_URL\<close> is set and \<open>connect()\<close> failed. The module variable holds the
  client all the same, the guard for a missing client does not fire, and a check with a
  limit other than -1 does not return; it returns, without an error message, only for
  the limit -1.
\<close>

theorem connect_failure_check_never_returns:
  "checkRateLimit_call fl now
     (initializeDatabase fl' (Some (c # url)) (Connect_failed msg) stored)
     k lmt windowMs increment =
     (if lmt = - 1
      then Some (\<lparr>allowed = True, rl_count = 0, remaining = - 1, resetTime = None,
                  limit = None, error = None\<rparr>,
                 Some \<lparr>committed = stored, pending = None, issued = []\<rparr>)
      else None)"
  by (simp add: checkRateLimit_call_def initializeDatabase_def checkRateLimit_def)

theorem connect_failure_check_never_returns_witness:
  "checkRateLimit_call no_faults 5000
     (initializeDatabase no_faults (Some ''postgres://db.internal:5432/orzion'')
        (Connect_failed ''connect ECONNREFUSED 10.0.0.5:5432'') Map.empty)
     ''user:u1:daily_requests'' 10 86400000 1 = None"
  using connect_failure_check_never_returns [of no_faults 5000 no_faults "CHR ''p''"
      "''ostgres://db.internal:5432/orzion''" "''connect ECONNREFUSED 10.0.0.5:5432''"
      Map.empty "''user:u1:daily_requests''" 10 86400000 1]
  by simp


section \<open>Properties of the quota gate\<close>

lemma checkUserRateLimits_eq:
  "checkUserRateLimits fl now pgClient uid aid limits t =
     (settle_checks limits (Inr (fst (run_checks fl now pgClient (user_checks uid limits t)))),
      snd (run_checks fl now pgClient (user_checks uid limits t)))"
  by (cases "run_checks fl now pgClient (user_checks uid limits t)")
     (simp add: checkUserRateLimits_def)

lemma gate_limits: "\<lparr>requestsPerSecond = requestsPerSecond (v_limits v),
     dailyRequests = dailyRequests (v_limits v),
     tokensPerMinute = tokensPerMinute (v_limits v)\<rparr> = v_limits v"
  by simp

lemma gate_backup:
  assumes "dailyRequests (v_limits v) \<noteq> - 1"
    and "dailyRequests (v_limits v) \<le> requestsToday (v_usage v)"
  shows "\<not> g_allowed (fst (checkRateLimits fl now pgClient v estimatedTokens))
       \<and> (u_allowed (fst (checkUserRateLimits fl now pgClient (userId v) (apiKeyId v)
                       (v_limits v) estimatedTokens))
          \<longrightarrow> g_reason (fst (checkRateLimits fl now pgClient v estimatedTokens))
               = Some ''daily_requests_exceeded_db'')"
  using assms
  by (cases "checkUserRateLimits fl now pgClient (userId v) (apiKeyId v) (v_limits v)
               estimatedTokens")
     (simp add: checkRateLimits_def Let_def gate_limits)

lemma user_checks_at_limit_run:
  "u_allowed (fst (checkUserRateLimits no_faults 5000 (Some empty_db) ''u1'' ''key1''
      \<lparr>requestsPerSecond = 10, dailyRequests = 100, tokensPerMinute = 1000\<rparr> 3))"
  by (simp add: checkUserRateLimits_eq user_checks_def settle_checks_def
      requests_per_second_key_def daily_requests_key_def tokens_per_minute_key_def
      checkRateLimit_def counter_transaction_def counter_update_def pg_query_def
      Let_def visible_def write_table_def select_count_def no_faults_def empty_db_def
      rate_key_def show_int_def fits_INTEGER_def fits_BIGINT_def)

text \<open>
  Claim C4. When the account's daily limit is not -1 and the recorded \<open>requestsToday\<close> is
  at least that limit, \<open>checkRateLimits\<close> returns \<open>allowed = false\<close>; if the rate limiter
  itself allowed the request, the reason is \<open>daily_requests_exceeded_db\<close>.
\<close>

theorem daily_usage_backup_check:
  assumes "dailyRequests (v_limits v) \<noteq> - 1"
    and "dailyRequests (v_limits v) \<le> requestsToday (v_usage v)"
  shows "\<not> g_allowed (fst (checkRateLimits fl now pgClient v estimatedTokens))
       \<and> (u_allowed (fst (checkUserRateLimits fl now pgClient (userId v) (apiKeyId v)
                       (v_limits v) estimatedTokens))
          \<longrightarrow> g_reason (fst (checkRateLimits fl now pgClient v estimatedTokens))
               = Some ''daily_requests_exceeded_db'')"
  using assms by (rule gate_backup)

theorem daily_usage_backup_check_witness:
  "u_allowed (fst (checkUserRateLimits no_faults 5000 (Some empty_db) ''u1'' ''key1''
      \<lparr>requestsPerSecond = 10, dailyRequests = 100, tokensPerMinute = 1000\<rparr> 3))
   \<and> \<not> g_allowed (fst (checkRateLimits no_faults 5000 (Some empty_db) account_at_limit 3))
   \<and> g_reason (fst (checkRateLimits no_faults 5000 (Some empty_db) account_at_limit 3))
       = Some ''daily_requests_exceeded_db''"
  using daily_usage_backup_check [of account_at_limit no_faults 5000 "Some empty_db" 3]
    user_checks_at_limit_run
  by (simp add: account_at_limit_def)

lemma dimension_keys_differ:
  "requests_per_second_key uid \<noteq> daily_requests_key uid"
  "requests_per_second_key uid \<noteq> tokens_per_minute_key uid"
  "daily_requests_key uid \<noteq> tokens_per_minute_key uid"
  by (simp_all add: requests_per_second_key_def daily_requests_key_def tokens_per_minute_key_def)

lemma settle_ignores_limits:
  "u_allowed (settle_checks limits outcome) = u_allowed (settle_checks limits' outcome)"
  "u_details (settle_checks limits outcome) = u_details (settle_checks limits' outcome)"
  by (simp_all add: settle_checks_def split: sum.splits option.splits)

text \<open>
  Claim C9. With \<open>requestsPerSecond = 0\<close> (likewise \<open>tokensPerMinute = 0\<close>) the list of
  checks that \<open>checkUserRateLimits\<close> runs has no check on that dimension's key, and the
  decision, the details and the store are those obtained with the limit -1: the
  dimension cannot deny. A token increment of 0 (or less) leaves the tokens-per-minute
  check out as well. With \<open>dailyRequests = 0\<close> and a recorded \<open>requestsToday\<close> that is
  not negative, the gate denies every request, and by the database check whenever the
  rate limiter allowed.
\<close>

theorem zero_limits:
  "(requestsPerSecond limits = 0 \<longrightarrow>
      (\<forall>c \<in> set (user_checks uid limits t). check_key c \<noteq> requests_per_second_key uid)
      \<and> u_allowed (fst (checkUserRateLimits fl now pgClient uid aid limits t))
          = u_allowed (fst (checkUserRateLimits fl now pgClient uid aid
                              (limits\<lparr>requestsPerSecond := - 1\<rparr>) t))
      \<and> u_details (fst (checkUserRateLimits fl now pgClient uid aid limits t))
          = u_details (fst (checkUserRateLimits fl now pgClient uid aid
                              (limits\<lparr>requestsPerSecond := - 1\<rparr>) t))
      \<and> snd (checkUserRateLimits fl now pgClient uid aid limits t)
          = snd (checkUserRateLimits fl now pgClient uid aid
                   (limits\<lparr>requestsPerSecond := - 1\<rparr>) t))
   \<and> (tokensPerMinute limits = 0 \<longrightarrow>
      (\<forall>c \<in> set (user_checks uid limits t). check_key c \<noteq> tokens_per_minute_key uid)
      \<and> u_allowed (fst (checkUserRateLimits fl now pgClient uid aid limits t))
          = u_allowed (fst (checkUserRateLimits fl now pgClient uid aid
                              (limits\<lparr>tokensPerMinute := - 1\<rparr>) t))
      \<and> u_details (fst (checkUserRateLimits fl now pgClient uid aid limits t))
          = u_details (fst (checkUserRateLimits fl now pgClient uid aid
                              (limits\<lparr>tokensPerMinute := - 1\<rparr>) t))
      \<and> snd (checkUserRateLimits fl now pgClient uid aid limits t)
          = snd (checkUserRateLimits fl now pgClient uid aid
                   (limits\<lparr>tokensPerMinute := - 1\<rparr>) t))
   \<and> (t \<le> 0 \<longrightarrow>
      (\<forall>c \<in> set (user_checks uid limits t). check_key c \<noteq> tokens_per_minute_key uid))
   \<and> (dailyRequests (v_limits v) = 0 \<and> 0 \<le> requestsToday (v_usage v) \<longrightarrow>
      \<not> g_allowed (fst (checkRateLimits fl now pgClient v t))
      \<and> (u_allowed (fst (checkUserRateLimits fl now pgClient (userId v) (apiKeyId v)
                       (v_limits v) t))
          \<longrightarrow> g_reason (fst (checkRateLimits fl now pgClient v t))
               = Some ''daily_requests_exceeded_db''))"
proof -
  have rps_checks: "user_checks uid limits t
        = user_checks uid (limits\<lparr>requestsPerSecond := - 1\<rparr>) t"
    if "requestsPerSecond limits = 0"
    using that by (simp add: user_checks_def)
  have rps_keys: "\<forall>c \<in> set (user_checks uid limits t). check_key c \<noteq> requests_per_second_key uid"
    if "requestsPerSecond limits = 0"
    using that dimension_keys_differ [of uid] by (auto simp: user_checks_def)
  have tpm_checks: "user_checks uid limits t
        = user_checks uid (limits\<lparr>tokensPerMinute := - 1\<rparr>) t"
    if "tokensPerMinute limits = 0"
    using that by (simp add: user_checks_def)
  have tpm_keys: "\<forall>c \<in> set (user_checks uid limits t). check_key c \<noteq> tokens_per_minute_key uid"
    if "tokensPerMinute limits = 0 \<or> t \<le> 0"
    using that dimension_keys_differ [of uid] by (auto simp: user_checks_def)
  have same: "u_allowed (fst (checkUserRateLimits fl now pgClient uid aid limits t))
          = u_allowed (fst (checkUserRateLimits fl now pgClient uid aid limits' t))
      \<and> u_details (fst (checkUserRateLimits fl now pgClient uid aid limits t))
          = u_details (fst (checkUserRateLimits fl now pgClient uid aid limits' t))
      \<and> snd (checkUserRateLimits fl now pgClient uid aid limits t)
          = snd (checkUserRateLimits fl now pgClient uid aid limits' t)"
    if "user_checks uid limits t = user_checks uid limits' t" for limits'
    using that settle_ignores_limits [of limits _ limits']
    by (simp add: checkUserRateLimits_eq)
  have daily: "\<not> g_allowed (fst (checkRateLimits fl now pgClient v t))
      \<and> (u_allowed (fst (checkUserRateLimits fl now pgClient (userId v) (apiKeyId v)
                       (v_limits v) t))
          \<longrightarrow> g_reason (fst (checkRateLimits fl now pgClient v t))
               = Some ''daily_requests_exceeded_db'')"
    if "dailyRequests (v_limits v) = 0" and "0 \<le> requestsToday (v_usage v)"
    using that by (intro gate_backup) simp_all
  show ?thesis
    using rps_keys same [OF rps_checks] tpm_keys same [OF tpm_checks] daily by blast
qed

theorem zero_limits_witness:
  "user_checks ''u1'' (v_limits account_zero) 5 = []
   \<and> u_allowed (fst (checkUserRateLimits no_faults 5000 (Some empty_db) ''u1'' ''key1''
                   (v_limits account_zero) 0))
   \<and> \<not> g_allowed (fst (checkRateLimits no_faults 5000 (Some empty_db) account_zero 0))
   \<and> g_reason (fst (checkRateLimits no_faults 5000 (Some empty_db) account_zero 0))
       = Some ''daily_requests_exceeded_db''"
proof -
  have checks: "user_checks ''u1'' (v_limits account_zero) t = []" for t
    by (simp add: user_checks_def account_zero_def)
  have run: "u_allowed (fst (checkUserRateLimits no_faults 5000 (Some empty_db) ''u1'' ''key1''
                   (v_limits account_zero) 0))"
    by (simp add: checkUserRateLimits_eq checks settle_checks_def)
  have fields: "requestsPerSecond (v_limits account_zero) = 0"
      "tokensPerMinute (v_limits account_zero) = 0"
      "dailyRequests (v_limits account_zero) = 0"
      "0 \<le> requestsToday (v_usage account_zero)"
      "userId account_zero = ''u1''" "apiKeyId account_zero = ''key1''"
    by (simp_all add: account_zero_def)
  show ?thesis
    using zero_limits [of "v_limits account_zero" "''u1''" 0 no_faults 5000 "Some empty_db"
        "''key1''" account_zero] checks run fields
    by simp
qed


section \<open>Properties of the retry dispatcher\<close>





















section \<open>Properties of the input token estimate\<close>

lemma estimateTokens_div: "estimateTokens text = (length text + 3) div 4"
proof -
  have "\<lceil>real (length text) / 4\<rceil> = \<lceil>of_int (int (length text)) / (of_int 4 :: real)\<rceil>"
    by simp
  also have "\<dots> = - (- int (length text) div 4)"
    by (rule ceiling_divide_eq_div)
  also have "\<dots> = (int (length text) + 3) div 4"
    by presburger
  finally have "nat \<lceil>real (length text) / 4\<rceil> = nat ((int (length text) + 3) div 4)"
    by simp
  also have "\<dots> = (length text + 3) div 4"
    by (simp add: nat_div_distrib nat_add_distrib)
  finally show ?thesis by (simp add: estimateTokens_def)
qed

lemma join_with_Cons: "join_with sep (x # xs) = x @ concat (map (\<lambda>y. sep @ y) xs)"
  by (induction xs arbitrary: x) auto

lemma accepted_fields:
  assumes "validate_request req = Accepted chk"
  shows "query_model req = Some (chk_model chk)"
    and "chk_model chk \<in> set VALID_MODELS"
    and "messages req = Some (chk_messages chk)"
    and "chk_messages chk \<noteq> []"
  using assms
  by (auto simp: validate_request_def Let_def split: if_splits option.splits)

lemma valid_model_prompt:
  assumes "m \<in> set VALID_MODELS"
  shows "\<exists>preamble. SYSTEM_PROMPTS pro turbo mini m = Some preamble"
  using assms by (auto simp: VALID_MODELS_def SYSTEM_PROMPTS_def)

text \<open>
  Claim C8. A request that passes the handler's validation has at least one message and
  a model with an instruction preamble, and its estimated input token count is the
  ceiling of a quarter of the length of this text: the content of the first message,
  then for every further message one space and its content, then the preamble with
  nothing in between. In numbers: the lengths of the contents, plus one for every
  message after the first, plus the length of the preamble, plus 3, divided by 4 and
  rounded down.
\<close>

theorem input_token_estimate:
  assumes "validate_request req = Accepted chk"
  shows "\<exists>m ms preamble.
           messages req = Some (m # ms) \<and> chk_messages chk = m # ms
         \<and> query_model req = Some (chk_model chk)
         \<and> SYSTEM_PROMPTS pro turbo mini (chk_model chk) = Some preamble
         \<and> int (inputTokens (SYSTEM_PROMPTS pro turbo mini) chk)
             = \<lceil>real (length (text_of (content m)
                               @ concat (map (\<lambda>x. CHR '' '' # text_of (content x)) ms)
                               @ preamble)) / 4\<rceil>
         \<and> inputTokens (SYSTEM_PROMPTS pro turbo mini) chk
             = (length (text_of (content m))
                + (\<Sum>x\<leftarrow>ms. 1 + length (text_of (content x)))
                + length preamble + 3) div 4"
proof -
  obtain preamble where pre: "SYSTEM_PROMPTS pro turbo mini (chk_model chk) = Some preamble"
    using valid_model_prompt [OF accepted_fields(2) [OF assms]] by blast
  obtain m ms where msgs: "chk_messages chk = m # ms"
    using accepted_fields(4) [OF assms] by (cases "chk_messages chk") auto
  let ?text = "text_of (content m) @ concat (map (\<lambda>x. CHR '' '' # text_of (content x)) ms)
                 @ preamble"
  have "join_with '' '' (map (\<lambda>m. text_of (content m)) (chk_messages chk))
          = text_of (content m) @ concat (map (\<lambda>x. CHR '' '' # text_of (content x)) ms)"
    unfolding msgs by (simp add: join_with_Cons comp_def)
  then have tokens: "inputTokens (SYSTEM_PROMPTS pro turbo mini) chk = estimateTokens ?text"
    using pre by (simp add: inputTokens_def)
  have "0 \<le> \<lceil>real (length ?text) / 4\<rceil>" by simp
  then have ceil: "int (estimateTokens ?text) = \<lceil>real (length ?text) / 4\<rceil>"
    unfolding estimateTokens_def by (rule nat_0_le)
  have len: "length ?text = length (text_of (content m))
                + (\<Sum>x\<leftarrow>ms. 1 + length (text_of (content x))) + length preamble"
    by (simp add: length_concat comp_def)
  have count: "inputTokens (SYSTEM_PROMPTS pro turbo mini) chk
             = (length (text_of (content m))
                + (\<Sum>x\<leftarrow>ms. 1 + length (text_of (content x)))
                + length preamble + 3) div 4"
    unfolding tokens estimateTokens_div len by (rule refl)
  show ?thesis
    using pre msgs tokens ceil count accepted_fields(1,3) [OF assms]
    by (intro exI [of _ m] exI [of _ ms] exI [of _ preamble]) simp
qed

lemma example_request_accepted: "validate_request example_request = Accepted example_checked"
  by (simp add: validate_request_def example_request_def example_checked_def VALID_MODELS_def
      BadRequest_def is_space_def Let_def)

theorem input_token_estimate_witness:
  "inputTokens (SYSTEM_PROMPTS ''You are Orzion'' ''You are Orzion Turbo'' ''You are Orzion Mini'')
     example_checked = 8"
proof -
  have prompt: "SYSTEM_PROMPTS ''You are Orzion'' ''You are Orzion Turbo'' ''You are Orzion Mini''
      (chk_model example_checked) = Some ''You are Orzion Mini''"
    by (simp add: SYSTEM_PROMPTS_def example_checked_def)
  show ?thesis
    using input_token_estimate [OF example_request_accepted,
        of "''You are Orzion''" "''You are Orzion Turbo''" "''You are Orzion Mini''"] prompt
    by (auto simp: example_checked_def)
qed


end
